theory Spec2Isabelle
  imports Complex_Main
begin

section \<open>Python values, dictionaries and exceptions\<close>

text \<open>
  The service passes applicant records, disclosures and feature maps around as
  \<^verbatim>\<open>Dict[str, Any]\<close>. A value is one of the scalars that JSON and the request schema
  can put there. Floats are modelled as exact rationals: binary rounding and the
  narrowing to float32 are outside the model. A dictionary is a partial map, so a key
  that is present with the value \<^verbatim>\<open>None\<close> differs from a key that is absent, as in Python.
\<close>

datatype pyval = PNone | PBool bool | PInt int | PFloat rat | PStr string

type_synonym pydict = "string \<rightharpoonup> pyval"

text \<open>Exceptions are values; the payload of \<open>ValueError\<close> is the message of the source.\<close>

datatype error =
    TypeError
  | AttributeError
  | KeyError string
  | ValueError string
  | IndexError
  | OSError string
  | LibraryError string

definition bind :: "error + 'a \<Rightarrow> ('a \<Rightarrow> error + 'b) \<Rightarrow> error + 'b" where
  "bind m f = (case m of Inl e \<Rightarrow> Inl e | Inr x \<Rightarrow> f x)"

fun map_err :: "('a \<Rightarrow> error + 'b) \<Rightarrow> 'a list \<Rightarrow> error + 'b list" where
  "map_err f [] = Inr []"
| "map_err f (x # xs) =
     (case f x of
        Inl e \<Rightarrow> Inl e
      | Inr y \<Rightarrow> (case map_err f xs of Inl e \<Rightarrow> Inl e | Inr ys \<Rightarrow> Inr (y # ys)))"

text \<open>\<^verbatim>\<open>d.get(k)\<close> and \<^verbatim>\<open>d.get(k, default)\<close>.\<close>

definition get :: "pydict \<Rightarrow> string \<Rightarrow> pyval" where
  "get d k = (case d k of None \<Rightarrow> PNone | Some v \<Rightarrow> v)"

definition get_default :: "pydict \<Rightarrow> string \<Rightarrow> pyval \<Rightarrow> pyval" where
  "get_default d k dflt = (case d k of None \<Rightarrow> dflt | Some v \<Rightarrow> v)"

text \<open>Truth value testing, as \<^verbatim>\<open>not x\<close>, \<^verbatim>\<open>x or y\<close> and \<^verbatim>\<open>if x\<close> use it.\<close>

fun truthy :: "pyval \<Rightarrow> bool" where
  "truthy PNone = False"
| "truthy (PBool b) = b"
| "truthy (PInt i) = (i \<noteq> 0)"
| "truthy (PFloat r) = (r \<noteq> 0)"
| "truthy (PStr s) = (s \<noteq> [])"

definition py_or :: "pyval \<Rightarrow> pyval \<Rightarrow> pyval" where
  "py_or x y = (if truthy x then x else y)"

text \<open>
  The number a value denotes in arithmetic and ordering (\<^verbatim>\<open>bool\<close> is a subclass of
  \<^verbatim>\<open>int\<close>); \<^verbatim>\<open>None\<close> and strings raise \<open>TypeError\<close> there.
\<close>

fun num :: "pyval \<Rightarrow> rat option" where
  "num PNone = None"
| "num (PBool b) = Some (if b then 1 else 0)"
| "num (PInt i) = Some (of_int i)"
| "num (PFloat r) = Some r"
| "num (PStr s) = None"

text \<open>
  A value as an operand of \<^verbatim>\<open>>=\<close> against a number: the number it denotes, or the
  \<open>TypeError\<close> that the first such comparison raises.
\<close>

definition as_num :: "pyval \<Rightarrow> error + rat" where
  "as_num v = (case num v of None \<Rightarrow> Inl TypeError | Some x \<Rightarrow> Inr x)"

definition py_ge :: "pyval \<Rightarrow> rat \<Rightarrow> error + bool" where
  "py_ge v c = (case num v of None \<Rightarrow> Inl TypeError | Some x \<Rightarrow> Inr (c \<le> x))"

subsection \<open>Strings\<close>

text \<open>\<^verbatim>\<open>str.lower()\<close> on ASCII letters; other characters are left as they are.\<close>

definition lower_char :: "char \<Rightarrow> char" where
  "lower_char c =
     (case map_of (zip ''ABCDEFGHIJKLMNOPQRSTUVWXYZ'' ''abcdefghijklmnopqrstuvwxyz'') c of
        None \<Rightarrow> c
      | Some l \<Rightarrow> l)"

definition lower :: "string \<Rightarrow> string" where
  "lower s = map lower_char s"

text \<open>\<^verbatim>\<open>v.lower()\<close> on a value: only a string has the method.\<close>

definition py_lower :: "pyval \<Rightarrow> error + string" where
  "py_lower v = (case v of PStr s \<Rightarrow> Inr (lower s) | _ \<Rightarrow> Inl AttributeError)"

text \<open>\<^verbatim>\<open>kw in text\<close> on strings: \<open>kw\<close> occurs as a contiguous substring.\<close>

fun starts_with :: "string \<Rightarrow> string \<Rightarrow> bool" where
  "starts_with [] s = True"
| "starts_with (k # ks) [] = False"
| "starts_with (k # ks) (c # cs) = (k = c \<and> starts_with ks cs)"

fun py_in :: "string \<Rightarrow> string \<Rightarrow> bool" where
  "py_in kw [] = (kw = [])"
| "py_in kw (c # cs) = (starts_with kw (c # cs) \<or> py_in kw cs)"

definition any_in :: "string list \<Rightarrow> string \<Rightarrow> bool" where
  "any_in kws text = list_ex (\<lambda>kw. py_in kw text) kws"

text \<open>\<^verbatim>\<open>" ".join(xs)\<close>.\<close>

fun join_space :: "string list \<Rightarrow> string" where
  "join_space [] = []"
| "join_space [x] = x"
| "join_space (x # y # ys) = x @ '' '' @ join_space (y # ys)"

section \<open>FeatureEngineer (training/feature\_engineering.py)\<close>

text \<open>
  \<^verbatim>\<open>round(x, 1)\<close>: to one decimal, ties to the even digit. On exact rationals; Python
  rounds the binary double, which can differ from this in the last digit next to a tie.
\<close>

definition py_round1 :: "rat \<Rightarrow> rat" where
  "py_round1 x =
     (let y = x * 10; f = \<lfloor>y\<rfloor>; d = y - of_int f
      in of_int (if d < 1 / 2 then f
                 else if 1 / 2 < d then f + 1
                 else if even f then f else f + 1) / 10)"

definition calculate_bmi :: "pyval \<Rightarrow> pyval \<Rightarrow> error + pyval" where
  "calculate_bmi height_cm weight_kg =
     (if \<not> truthy height_cm \<or> \<not> truthy weight_kg then Inr PNone
      else case num height_cm of
             None \<Rightarrow> Inl TypeError
           | Some h \<Rightarrow>
               (let height_m = h / 100 in
                case num weight_kg of
                  None \<Rightarrow> Inl TypeError
                | Some w \<Rightarrow> Inr (PFloat (py_round1 (w / (height_m * height_m))))))"

text \<open>
  \<open>calculate_age\<close> reads the clock (\<^verbatim>\<open>datetime.now()\<close>) and parses with the standard
  library's \<^verbatim>\<open>datetime.fromisoformat\<close>. Both are taken as parameters: \<open>today\<close> is the
  date the clock gives at the call, and \<open>fromisoformat s\<close> is \<open>None\<close> where the library
  raises. Every exception inside the \<^verbatim>\<open>try\<close> block gives \<^verbatim>\<open>None\<close>, so a truthy value
  that is not a string (no \<^verbatim>\<open>replace\<close> method) gives \<^verbatim>\<open>None\<close> too.
\<close>

record date =
  year :: int
  month :: int
  day :: int

definition replace_Z :: "string \<Rightarrow> string" where
  "replace_Z s = concat (map (\<lambda>c. if c = CHR ''Z'' then ''+00:00'' else [c]) s)"

definition calculate_age ::
    "(string \<Rightarrow> date option) \<Rightarrow> date \<Rightarrow> pyval \<Rightarrow> pyval" where
  "calculate_age fromisoformat today date_of_birth =
     (if \<not> truthy date_of_birth then PNone
      else case date_of_birth of
             PStr s \<Rightarrow>
               (case fromisoformat (replace_Z s) of
                  None \<Rightarrow> PNone
                | Some dob \<Rightarrow>
                    (let age = year today - year dob in
                     if month today < month dob
                        \<or> (month today = month dob \<and> day today < day dob)
                     then PInt (age - 1) else PInt age))
           | _ \<Rightarrow> PNone)"

definition encode_smoking_status :: "pyval \<Rightarrow> int" where
  "encode_smoking_status status =
     (if status = PStr ''current'' then 2
      else if status = PStr ''former'' then 1
      else 0)"

definition get_sum_assured_tier :: "rat \<Rightarrow> int" where
  "get_sum_assured_tier sum_assured =
     (if 10000000 \<le> sum_assured then 3
      else if 5000000 \<le> sum_assured then 2
      else if 2500000 \<le> sum_assured then 1
      else 0)"

text \<open>
  The text that the keyword lists are matched against: the lower-cased names of the
  disclosures of one type, joined by single spaces. A name that is present but not a
  string has no \<^verbatim>\<open>lower\<close> method.
\<close>

definition disclosure_text :: "string \<Rightarrow> string \<Rightarrow> pydict list \<Rightarrow> error + string" where
  "disclosure_text dtype name_key disclosures =
     bind (map_err (\<lambda>d. py_lower (get_default d name_key (PStr [])))
             (filter (\<lambda>d. get d ''disclosure_type'' = PStr dtype) disclosures))
          (\<lambda>names. Inr (join_space names))"

definition extract_condition_flags :: "pydict list \<Rightarrow> error + pydict" where
  "extract_condition_flags disclosures =
     bind (disclosure_text ''condition'' ''condition_name'' disclosures)
       (\<lambda>condition_text. Inr
         [''has_cardiac'' \<mapsto> PBool (any_in
              [''cardiac'', ''heart'', ''coronary'', '' mi '', ''angina'', ''arrhythmia'']
              condition_text),
          ''has_diabetes'' \<mapsto> PBool (py_in ''diabetes'' condition_text),
          ''has_hypertension'' \<mapsto> PBool (any_in
              [''hypertension'', ''blood pressure'', ''htn''] condition_text),
          ''has_renal'' \<mapsto> PBool (any_in
              [''kidney'', ''renal'', ''ckd'', ''nephro''] condition_text),
          ''has_hepatic'' \<mapsto> PBool (any_in
              [''liver'', ''hepatic'', ''cirrhosis''] condition_text),
          ''has_respiratory'' \<mapsto> PBool (any_in
              [''asthma'', ''copd'', ''respiratory'', ''pulmonary''] condition_text),
          ''has_cancer'' \<mapsto> PBool (any_in
              [''cancer'', ''malignant'', ''tumor'', ''carcinoma''] condition_text),
          ''has_neurological'' \<mapsto> PBool (any_in
              [''stroke'', ''epilepsy'', ''parkinson'', ''alzheimer''] condition_text)])"

definition extract_family_history_flags :: "pydict list \<Rightarrow> error + pydict" where
  "extract_family_history_flags disclosures =
     bind (disclosure_text ''family_history'' ''family_condition'' disclosures)
       (\<lambda>family_text. Inr
         [''family_history_cardiac'' \<mapsto> PBool (any_in
              [''cardiac'', ''heart'', ''coronary''] family_text),
          ''family_history_diabetes'' \<mapsto> PBool (py_in ''diabetes'' family_text),
          ''family_history_cancer'' \<mapsto> PBool (any_in
              [''cancer'', ''malignant''] family_text),
          ''family_history_stroke'' \<mapsto> PBool (py_in ''stroke'' family_text)])"

text \<open>The counting loop of \<open>count_disclosures\<close>, one counter per disclosure type.\<close>

record counts =
  condition_count :: int
  medication_count :: int
  family_history_count :: int
  surgery_count :: int

definition count_step :: "counts \<Rightarrow> pydict \<Rightarrow> counts" where
  "count_step c d =
     (let dtype = get_default d ''disclosure_type'' (PStr []) in
      if dtype = PStr ''condition'' then c\<lparr>condition_count := condition_count c + 1\<rparr>
      else if dtype = PStr ''medication'' then c\<lparr>medication_count := medication_count c + 1\<rparr>
      else if dtype = PStr ''family_history''
        then c\<lparr>family_history_count := family_history_count c + 1\<rparr>
      else if dtype = PStr ''surgery'' then c\<lparr>surgery_count := surgery_count c + 1\<rparr>
      else c)"

definition count_disclosures :: "pydict list \<Rightarrow> pydict" where
  "count_disclosures disclosures =
     (let c = foldl count_step
                \<lparr>condition_count = 0, medication_count = 0,
                 family_history_count = 0, surgery_count = 0\<rparr> disclosures
      in [''condition_count'' \<mapsto> PInt (condition_count c),
          ''medication_count'' \<mapsto> PInt (medication_count c),
          ''family_history_count'' \<mapsto> PInt (family_history_count c),
          ''surgery_count'' \<mapsto> PInt (surgery_count c)])"

text \<open>
  \<^verbatim>\<open>np.array(vector, dtype=np.float32)\<close>: a number or a bool becomes that number,
  \<^verbatim>\<open>None\<close> becomes NaN. A string raises here; NumPy also accepts a string that spells
  a number, which no caller in this service puts under a numeric feature.
\<close>

datatype f32 = F rat | NaN

definition to_f32 :: "pyval \<Rightarrow> error + f32" where
  "to_f32 v =
     (case v of
        PNone \<Rightarrow> Inr NaN
      | PStr s \<Rightarrow> Inl (ValueError ''could not convert string to float'')
      | _ \<Rightarrow> (case num v of Some x \<Rightarrow> Inr (F x) | None \<Rightarrow> Inl TypeError))"

definition np_array_f32 :: "pyval list \<Rightarrow> error + f32 list" where
  "np_array_f32 vector = map_err to_f32 vector"

text \<open>
  \<open>prepare_features\<close>, in the order of the source: derived values, flags, the merged
  feature dictionary (later entries win, as in a dictionary display with \<^verbatim>\<open>**\<close>), then
  the vector in schema order with 0 for a name that the dictionary does not have.
\<close>

definition prepare_features ::
    "(string \<Rightarrow> date option) \<Rightarrow> date \<Rightarrow> pydict \<Rightarrow> rat \<Rightarrow> pydict list \<Rightarrow> string list
     \<Rightarrow> error + f32 list" where
  "prepare_features fromisoformat today applicant sum_assured disclosures feature_names =
     bind (if truthy (get applicant ''bmi'') then Inr (get applicant ''bmi'')
           else calculate_bmi (get applicant ''height_cm'') (get applicant ''weight_kg''))
       (\<lambda>bmi.
          let age = py_or (get applicant ''age'')
                      (calculate_age fromisoformat today (get applicant ''date_of_birth''))
          in
          bind (extract_condition_flags disclosures) (\<lambda>condition_flags.
          bind (extract_family_history_flags disclosures) (\<lambda>family_flags.
            let counts = count_disclosures disclosures;
                all_features =
                  [''age'' \<mapsto> py_or age (PInt 35),
                   ''bmi'' \<mapsto> py_or bmi (PFloat 24),
                   ''smoking_status'' \<mapsto>
                      PInt (encode_smoking_status (get applicant ''smoking_status'')),
                   ''sum_assured'' \<mapsto> PFloat (sum_assured / 1000000),
                   ''sum_assured_tier'' \<mapsto> PInt (get_sum_assured_tier sum_assured)]
                  ++ condition_flags ++ family_flags ++ counts
            in np_array_f32 (map (\<lambda>name. get_default all_features name (PInt 0))
                                 feature_names))))"

text \<open>
  A parser for the date-only form \<^verbatim>\<open>YYYY-MM-DD\<close>, to instantiate the parameter
  \<open>fromisoformat\<close> in concrete evaluations. Where it returns a date, the library's
  \<^verbatim>\<open>datetime.fromisoformat\<close> returns the same year, month and day.
\<close>

definition digit :: "char \<Rightarrow> int option" where
  "digit c =
     (let n = (of_char c :: nat) in if 48 \<le> n \<and> n \<le> 57 then Some (int n - 48) else None)"

definition digits :: "string \<Rightarrow> int option" where
  "digits s =
     foldl (\<lambda>acc c. case acc of
                       None \<Rightarrow> None
                     | Some a \<Rightarrow> (case digit c of None \<Rightarrow> None | Some d \<Rightarrow> Some (10 * a + d)))
           (Some 0) s"

definition iso_date_only :: "string \<Rightarrow> date option" where
  "iso_date_only s =
     (if length s = 10 \<and> s ! 4 = CHR ''-'' \<and> s ! 7 = CHR ''-'' then
        (case (digits (take 4 s), digits (take 2 (drop 5 s)), digits (drop 8 s)) of
           (Some y, Some m, Some d) \<Rightarrow>
             if 1 \<le> y \<and> 1 \<le> m \<and> m \<le> 12 \<and> 1 \<le> d \<and> d \<le> 28
             then Some \<lparr>year = y, month = m, day = d\<rparr> else None
         | _ \<Rightarrow> None)
      else None)"

section \<open>Settings (config.py)\<close>

text \<open>The two feature schemas, with the defaults of \<open>Settings\<close>.\<close>

definition complexity_features :: "string list" where
  "complexity_features =
     [''age'', ''bmi'', ''sum_assured'', ''smoking_status'',
      ''condition_count'', ''medication_count'', ''has_cardiac'',
      ''has_diabetes'', ''has_hypertension'', ''has_renal'',
      ''family_history_cardiac'', ''family_history_diabetes'']"

definition test_yield_features :: "string list" where
  "test_yield_features =
     [''age'', ''bmi'', ''smoking_status'', ''condition_count'',
      ''has_condition_related'', ''sum_assured_tier'']"

section \<open>DataLoader: feature extraction for training rows (training/data\_loader.py)\<close>

definition extract_case_features :: "pydict \<Rightarrow> rat \<Rightarrow> pydict list \<Rightarrow> error + pydict" where
  "extract_case_features applicant sum_assured disclosures =
     bind (extract_condition_flags disclosures) (\<lambda>condition_flags.
     bind (extract_family_history_flags disclosures) (\<lambda>family_flags.
       let counts = count_disclosures disclosures in
       bind (if truthy (get applicant ''bmi'') then Inr (get applicant ''bmi'')
             else calculate_bmi (get applicant ''heightCm'') (get applicant ''weightKg''))
         (\<lambda>bmi. Inr
            ([''age'' \<mapsto> get_default applicant ''age'' (PInt 35),
              ''bmi'' \<mapsto> py_or bmi (PFloat 24),
              ''sum_assured'' \<mapsto> PFloat (sum_assured / 1000000),
              ''smoking_status'' \<mapsto>
                 PInt (encode_smoking_status (get applicant ''smokingStatus''))]
             ++ condition_flags ++ family_flags ++ counts))))"

text \<open>
  One row of the training matrix, as \<open>prepare_complexity_dataset\<close> builds it:
  \<^verbatim>\<open>[features.get(f, 0) for f in feature_names]\<close>, narrowed by \<^verbatim>\<open>np.array\<close>.
\<close>

definition feature_row :: "string list \<Rightarrow> pydict \<Rightarrow> pyval list" where
  "feature_row feature_names features =
     map (\<lambda>f. get_default features f (PInt 0)) feature_names"


definition test_condition_map :: "string \<Rightarrow> string list" where
  "test_condition_map test_code =
     (if test_code = ''HBA1C'' then [''has_diabetes'']
      else if test_code = ''LIPID'' then [''has_cardiac'', ''has_diabetes'']
      else if test_code = ''ECG'' then [''has_cardiac'', ''has_hypertension'']
      else if test_code = ''LFT'' then [''has_hepatic'']
      else if test_code = ''RFT'' then [''has_renal'', ''has_diabetes'', ''has_hypertension'']
      else [])"

definition extract_test_features ::
    "string \<Rightarrow> pydict \<Rightarrow> rat \<Rightarrow> pydict list \<Rightarrow> error + pydict" where
  "extract_test_features test_code applicant sum_assured disclosures =
     bind (extract_case_features applicant sum_assured disclosures) (\<lambda>base_features.
     bind (extract_condition_flags disclosures) (\<lambda>condition_flags.
       let related_conditions = test_condition_map test_code;
           has_related =
             list_ex (\<lambda>c. truthy (get_default condition_flags c (PBool False)))
               related_conditions
       in Inr (base_features
               ++ [''has_condition_related'' \<mapsto> PInt (if has_related then 1 else 0),
                   ''sum_assured_tier'' \<mapsto> PInt (get_sum_assured_tier sum_assured)])))"

definition was_test_informative :: "pydict \<Rightarrow> bool" where
  "was_test_informative test_result =
     (if get test_result ''resultStatus'' \<in> {PStr ''abnormal'', PStr ''borderline''} then True
      else if truthy (get test_result ''ledToAction'') then True
      else if truthy (get test_result ''influencedDecision'') then True
      else False)"

section \<open>InferenceService: feature preparation for a request (services/inference\_service.py)\<close>

text \<open>The argument \<open>existing_risk_factors\<close> is accepted and not read, as in the source.\<close>

definition prepare_complexity_features ::
    "pydict \<Rightarrow> rat \<Rightarrow> pydict list \<Rightarrow> pydict list \<Rightarrow> error + pydict" where
  "prepare_complexity_features applicant sum_assured medical_disclosures existing_risk_factors =
     (let features =
            [''age'' \<mapsto> get applicant ''age'',
             ''bmi'' \<mapsto> get applicant ''bmi'',
             ''smoking_status'' \<mapsto> get applicant ''smoking_status'',
             ''sum_assured'' \<mapsto> PFloat sum_assured]
      in
      bind (if \<not> truthy (get applicant ''bmi'') \<and> truthy (get applicant ''height_cm'')
               \<and> truthy (get applicant ''weight_kg'')
            then (case num (get applicant ''height_cm'') of
                    None \<Rightarrow> Inl TypeError
                  | Some h \<Rightarrow>
                      (let height_m = h / 100 in
                       case num (get applicant ''weight_kg'') of
                         None \<Rightarrow> Inl TypeError
                       | Some w \<Rightarrow>
                           Inr (features(''bmi'' \<mapsto> PFloat (w / (height_m * height_m))))))
            else Inr features)
        (\<lambda>features.
           let dtype = (\<lambda>d. get_default d ''disclosure_type'' (PStr []));
               conditions = filter (\<lambda>d. dtype d = PStr ''condition'') medical_disclosures;
               medications = filter (\<lambda>d. dtype d = PStr ''medication'') medical_disclosures;
               family_history =
                 filter (\<lambda>d. dtype d = PStr ''family_history'') medical_disclosures;
               features = features(''condition_count'' \<mapsto> PInt (int (length conditions)),
                                   ''medication_count'' \<mapsto> PInt (int (length medications)))
           in
           bind (map_err (\<lambda>c. py_lower (get_default c ''condition_name'' (PStr []))) conditions)
             (\<lambda>names.
                let condition_names = join_space names;
                    features = features
                      (''has_cardiac'' \<mapsto> PBool (any_in
                          [''cardiac'', ''heart'', ''coronary'', '' mi '', ''angina'']
                          condition_names),
                       ''has_diabetes'' \<mapsto> PBool (py_in ''diabetes'' condition_names),
                       ''has_hypertension'' \<mapsto> PBool (any_in
                          [''hypertension'', ''blood pressure'', ''htn''] condition_names),
                       ''has_renal'' \<mapsto> PBool (any_in
                          [''kidney'', ''renal'', ''ckd''] condition_names))
                in
                bind (map_err (\<lambda>f. py_lower (get_default f ''family_condition'' (PStr [])))
                        family_history)
                  (\<lambda>fnames.
                     let family_conditions = join_space fnames
                     in Inr (features
                       (''family_history_cardiac'' \<mapsto> PBool (any_in
                           [''cardiac'', ''heart''] family_conditions),
                        ''family_history_diabetes'' \<mapsto>
                           PBool (py_in ''diabetes'' family_conditions)))))))"

definition prepare_test_features ::
    "string \<Rightarrow> pydict \<Rightarrow> rat \<Rightarrow> pydict list \<Rightarrow> error + pydict" where
  "prepare_test_features test_code applicant sum_assured medical_disclosures =
     bind (prepare_complexity_features applicant sum_assured medical_disclosures [])
       (\<lambda>features. Inr (features(''test_code'' \<mapsto> PStr test_code)))"

section \<open>ComplexityModel (models/complexity\_model.py)\<close>

text \<open>
  The calibrated classifier is scikit-learn's: a trained classifier is a value of the
  type parameter \<open>'c\<close>, and what the library computes from it is taken as a parameter
  where a definition needs it. The field \<^verbatim>\<open>base_model\<close>, the estimator inside the
  calibration wrapper, is stored and never read; it has no field of its own here.
\<close>

type_synonym metrics = "string \<rightharpoonup> rat"

record 'c complexity_model =
  cm_model :: "'c option"
  cm_feature_names :: "string list"
  cm_version :: string
  cm_is_fitted :: bool
  cm_training_metrics :: metrics

definition CLASSES :: "string list" where
  "CLASSES = [''ROUTINE'', ''MODERATE'', ''COMPLEX'']"

text \<open>The state \<^verbatim>\<open>__init__\<close> leaves: an unfitted model on the configured schema.\<close>

definition new_complexity_model :: "'c complexity_model" where
  "new_complexity_model =
     \<lparr>cm_model = None, cm_feature_names = complexity_features,
      cm_version = ''v1'', cm_is_fitted = False, cm_training_metrics = Map.empty\<rparr>"

record contribution =
  feature :: string
  val :: pyval
  contribution :: rat
  direction :: string

type_synonym complexity_prediction =
  "string \<times> rat \<times> (string \<rightharpoonup> rat) \<times> contribution list"

text \<open>One element of the vector of \<open>_extract_features\<close>, before the narrowing.\<close>

definition cm_feature_value :: "pydict \<Rightarrow> string \<Rightarrow> error + pyval" where
  "cm_feature_value features fname =
     (if fname = ''age'' then Inr (get_default features ''age'' (PInt 35))
      else if fname = ''bmi'' then Inr (get_default features ''bmi'' (PInt 24))
      else if fname = ''sum_assured'' then
        (case num (get_default features ''sum_assured'' (PInt 5000000)) of
           None \<Rightarrow> Inl TypeError
         | Some sa \<Rightarrow> Inr (PFloat (sa / 1000000)))
      else if fname = ''smoking_status'' then
        (let status = get_default features ''smoking_status'' (PStr ''never'')
         in Inr (PInt (if status = PStr ''current'' then 2
                       else if status = PStr ''former'' then 1 else 0)))
      else if fname = ''condition_count'' then
        Inr (get_default features ''condition_count'' (PInt 0))
      else if fname = ''medication_count'' then
        Inr (get_default features ''medication_count'' (PInt 0))
      else if fname = ''has_cardiac'' then
        Inr (PInt (if truthy (get_default features ''has_cardiac'' (PBool False)) then 1 else 0))
      else if fname = ''has_diabetes'' then
        Inr (PInt (if truthy (get_default features ''has_diabetes'' (PBool False)) then 1 else 0))
      else if fname = ''has_hypertension'' then
        Inr (PInt (if truthy (get_default features ''has_hypertension'' (PBool False))
                   then 1 else 0))
      else if fname = ''has_renal'' then
        Inr (PInt (if truthy (get_default features ''has_renal'' (PBool False)) then 1 else 0))
      else if fname = ''family_history_cardiac'' then
        Inr (PInt (if truthy (get_default features ''family_history_cardiac'' (PBool False))
                   then 1 else 0))
      else if fname = ''family_history_diabetes'' then
        Inr (PInt (if truthy (get_default features ''family_history_diabetes'' (PBool False))
                   then 1 else 0))
      else Inr (PInt 0))"

definition cm_extract_features :: "string list \<Rightarrow> pydict \<Rightarrow> error + f32 list" where
  "cm_extract_features feature_names features =
     bind (map_err (cm_feature_value features) feature_names) np_array_f32"


definition tier_of_score :: "rat \<Rightarrow> string \<times> (string \<rightharpoonup> rat)" where
  "tier_of_score score =
     (if 0.6 \<le> score then
        (''COMPLEX'', [''ROUTINE'' \<mapsto> 0.1, ''MODERATE'' \<mapsto> 0.2, ''COMPLEX'' \<mapsto> 0.7])
      else if 0.3 \<le> score then
        (''MODERATE'', [''ROUTINE'' \<mapsto> 0.2, ''MODERATE'' \<mapsto> 0.6, ''COMPLEX'' \<mapsto> 0.2])
      else
        (''ROUTINE'', [''ROUTINE'' \<mapsto> 0.7, ''MODERATE'' \<mapsto> 0.2, ''COMPLEX'' \<mapsto> 0.1]))"

text \<open>
  \<open>_rule_based_prediction\<close>. The values of \<^verbatim>\<open>age\<close>, \<^verbatim>\<open>bmi\<close> and \<^verbatim>\<open>sum_assured\<close> are
  compared with numbers, in this order, and the first that is not a number raises
  \<open>TypeError\<close>: a key that is present with \<^verbatim>\<open>None\<close> included, since
  \<^verbatim>\<open>features.get("age", 35)\<close> gives the default for an absent key only. The score is what
  the statements \<^verbatim>\<open>score += ...\<close> add up to, starting from 0.
\<close>

definition rule_score :: "rat \<Rightarrow> rat \<Rightarrow> bool \<Rightarrow> bool \<Rightarrow> bool \<Rightarrow> bool \<Rightarrow> rat \<Rightarrow> rat" where
  "rule_score age bmi smoking_current has_cardiac has_diabetes has_renal sa =
     0 + (if 65 \<le> age then 0.4 else if 55 \<le> age then 0.2 else 0)
       + (if 35 \<le> bmi then 0.35 else if 30 \<le> bmi then 0.2 else 0)
       + (if smoking_current then 0.3 else 0)
       + (if has_cardiac then 0.5 else 0)
       + (if has_diabetes then 0.25 else 0)
       + (if has_renal then 0.4 else 0)
       + (if 10000000 \<le> sa then 0.1 else 0)"

definition cm_rule_based_prediction :: "pydict \<Rightarrow> error + complexity_prediction" where
  "cm_rule_based_prediction features =
     bind (as_num (get_default features ''age'' (PInt 35))) (\<lambda>age.
     bind (as_num (get_default features ''bmi'' (PInt 24))) (\<lambda>bmi.
     bind (as_num (get_default features ''sum_assured'' (PInt 0))) (\<lambda>sa.
       let score = rule_score age bmi
                     (get features ''smoking_status'' = PStr ''current'')
                     (truthy (get features ''has_cardiac''))
                     (truthy (get features ''has_diabetes''))
                     (truthy (get features ''has_renal'')) sa;
           tier = fst (tier_of_score score);
           probs = snd (tier_of_score score);
           confidence = the (probs tier);
           contributions =
             [\<lparr>feature = ''rule_based'', val = PFloat score, contribution = score,
               direction = ''increases''\<rparr>]
       in Inr (tier, confidence, probs, contributions))))"

text \<open>\<^verbatim>\<open>np.argmax\<close>: the first index of the largest entry of a non-empty list.\<close>

definition argmax :: "rat list \<Rightarrow> nat" where
  "argmax ps = (let m = fold max (tl ps) (hd ps) in length (takeWhile (\<lambda>p. p \<noteq> m) ps))"

text \<open>
  \<open>predict\<close>. On the fitted path the classifier's \<^verbatim>\<open>predict_proba\<close> and the explanation
  layer \<open>_calculate_contributions\<close> (a display aid that sorts by floating-point
  magnitude) are parameters.
\<close>

definition cm_predict ::
    "('c \<Rightarrow> f32 list \<Rightarrow> error + rat list) \<Rightarrow> (pydict \<Rightarrow> f32 list \<Rightarrow> contribution list)
     \<Rightarrow> 'c complexity_model \<Rightarrow> pydict \<Rightarrow> error + complexity_prediction" where
  "cm_predict predict_proba calculate_contributions m features =
     (if \<not> cm_is_fitted m then cm_rule_based_prediction features
      else
        bind (cm_extract_features (cm_feature_names m) features) (\<lambda>X.
          case cm_model m of
            None \<Rightarrow> Inl AttributeError
          | Some clf \<Rightarrow>
              bind (predict_proba clf X) (\<lambda>probabilities.
                if probabilities = [] then Inl (ValueError ''argmax of an empty sequence'')
                else
                  let prob_dict = map_of (zip CLASSES probabilities);
                      predicted_idx = argmax probabilities
                  in if length CLASSES \<le> predicted_idx then Inl IndexError
                     else Inr (CLASSES ! predicted_idx, probabilities ! predicted_idx,
                               prob_dict, calculate_contributions features X))))"

section \<open>TestYieldModel (models/test\_yield\_model.py)\<close>

definition SUPPORTED_TESTS :: "string list" where
  "SUPPORTED_TESTS =
     [''HBA1C'', ''LIPID'', ''ECG'', ''LFT'', ''RFT'', ''CBC'', ''URINE'', ''ECHO'', ''TMT'']"

text \<open>\<^verbatim>\<open>TEST_CONDITIONS.get(test_code, [])\<close>.\<close>

definition TEST_CONDITIONS :: "string \<Rightarrow> string list" where
  "TEST_CONDITIONS test_code =
     (if test_code = ''HBA1C'' then [''diabetes'', ''metabolic'']
      else if test_code = ''LIPID'' then [''cardiac'', ''metabolic'', ''obesity'']
      else if test_code = ''ECG'' then [''cardiac'', ''hypertension'']
      else if test_code = ''LFT'' then [''hepatic'', ''alcohol'', ''medication'']
      else if test_code = ''RFT'' then [''renal'', ''diabetes'', ''hypertension'']
      else if test_code = ''CBC'' then []
      else if test_code = ''URINE'' then [''renal'', ''diabetes'']
      else if test_code = ''ECHO'' then [''cardiac'']
      else if test_code = ''TMT'' then [''cardiac'']
      else [])"

text \<open>
  The bank of regressors. \<open>models t = Some None\<close> is the key \<open>t\<close> holding \<^verbatim>\<open>None\<close>;
  \<open>models t = None\<close> is the key missing. A trained regressor is a value of \<open>'r\<close>.
\<close>

record 'r test_yield_model =
  models :: "string \<rightharpoonup> 'r option"
  feature_names :: "string list"
  version :: string
  is_fitted :: "string \<rightharpoonup> bool"
  training_metrics :: "string \<rightharpoonup> metrics"

definition new_test_yield_model :: "'r test_yield_model" where
  "new_test_yield_model =
     \<lparr>models = Map.empty, feature_names = test_yield_features, version = ''v1'',
      is_fitted = map_of (map (\<lambda>t. (t, False)) SUPPORTED_TESTS),
      training_metrics = Map.empty\<rparr>"

type_synonym yield_prediction = "rat \<times> rat \<times> string \<times> contribution list"

definition has_related_condition :: "string \<Rightarrow> pydict \<Rightarrow> error + bool" where
  "has_related_condition test_code features =
     (let related_conditions = TEST_CONDITIONS test_code in
      if ''cardiac'' \<in> set related_conditions \<and> truthy (get features ''has_cardiac'')
        then Inr True
      else if ''diabetes'' \<in> set related_conditions \<and> truthy (get features ''has_diabetes'')
        then Inr True
      else if ''renal'' \<in> set related_conditions \<and> truthy (get features ''has_renal'')
        then Inr True
      else if ''hypertension'' \<in> set related_conditions
              \<and> truthy (get features ''has_hypertension'')
        then Inr True
      else
        bind (if ''obesity'' \<in> set related_conditions
              then py_ge (get_default features ''bmi'' (PInt 24)) 30 else Inr False)
          (\<lambda>obese.
             if obese then Inr True
             else if ''metabolic'' \<in> set related_conditions then
               (if truthy (get features ''has_diabetes'') then Inr True
                else py_ge (get_default features ''bmi'' (PInt 24)) 30)
             else Inr False))"

definition ty_feature_value :: "string \<Rightarrow> pydict \<Rightarrow> string \<Rightarrow> error + pyval" where
  "ty_feature_value test_code features fname =
     (if fname = ''age'' then Inr (get_default features ''age'' (PInt 35))
      else if fname = ''bmi'' then Inr (get_default features ''bmi'' (PInt 24))
      else if fname = ''smoking_status'' then
        (let status = get_default features ''smoking_status'' (PStr ''never'')
         in Inr (PInt (if status = PStr ''current'' then 2
                       else if status = PStr ''former'' then 1 else 0)))
      else if fname = ''condition_count'' then
        Inr (get_default features ''condition_count'' (PInt 0))
      else if fname = ''has_condition_related'' then
        bind (has_related_condition test_code features)
          (\<lambda>related. Inr (PInt (if related then 1 else 0)))
      else if fname = ''sum_assured_tier'' then
        bind (as_num (get_default features ''sum_assured'' (PInt 0))) (\<lambda>sa.
          Inr (PInt (if 10000000 \<le> sa then 3
                     else if 5000000 \<le> sa then 2
                     else if 2500000 \<le> sa then 1
                     else 0)))
      else Inr (PInt 0))"

definition ty_extract_features :: "string list \<Rightarrow> string \<Rightarrow> pydict \<Rightarrow> error + f32 list" where
  "ty_extract_features fnames test_code features =
     bind (map_err (ty_feature_value test_code features) fnames) np_array_f32"

text \<open>\<^verbatim>\<open>f in features and features[f] is not None\<close>.\<close>

definition present :: "pydict \<Rightarrow> string \<Rightarrow> bool" where
  "present features f = (case features f of None \<Rightarrow> False | Some v \<Rightarrow> v \<noteq> PNone)"

definition calculate_confidence :: "pydict \<Rightarrow> rat" where
  "calculate_confidence features =
     (let required = [''age'', ''bmi''];
          optional = [''smoking_status'', ''has_diabetes'', ''has_cardiac''];
          score = 0.5;
          score = foldl (\<lambda>s f. if present features f then s + 0.15 else s) score required;
          score = foldl (\<lambda>s f. if present features f then s + 0.05 else s) score optional
      in min 0.95 score)"

definition get_recommendation :: "rat \<Rightarrow> string \<Rightarrow> string" where
  "get_recommendation yield_prob test_code =
     (if 0.6 \<le> yield_prob then ''recommended''
      else if 0.3 \<le> yield_prob then ''optional''
      else ''low_yield'')"

text \<open>
  \<open>_calculate_contributions\<close>: the entries are appended in this order. The comparisons
  of \<^verbatim>\<open>age\<close> and \<^verbatim>\<open>bmi\<close> are always made, and raise on a value that is not a number.
\<close>

definition ty_calculate_contributions :: "string \<Rightarrow> pydict \<Rightarrow> error + contribution list" where
  "ty_calculate_contributions test_code features =
     bind (has_related_condition test_code features) (\<lambda>related.
     bind (as_num (get_default features ''age'' (PInt 35))) (\<lambda>age.
     bind (as_num (get_default features ''bmi'' (PInt 24))) (\<lambda>bmi.
       Inr ((if related
             then [\<lparr>feature = ''related_condition'', val = PBool True, contribution = 0.3,
                    direction = ''increases''\<rparr>]
             else [])
            @ (if 45 \<le> age
               then [\<lparr>feature = ''age'', val = get_default features ''age'' (PInt 35),
                      contribution = 0.1 * (age - 35) / 30, direction = ''increases''\<rparr>]
               else [])
            @ (if 30 \<le> bmi \<and> test_code \<in> set [''LIPID'', ''HBA1C'', ''ECG'']
               then [\<lparr>feature = ''bmi'', val = get_default features ''bmi'' (PInt 24),
                      contribution = 0.15, direction = ''increases''\<rparr>]
               else [])
            @ (if get features ''smoking_status'' = PStr ''current''
                  \<and> test_code \<in> set [''ECG'', ''LIPID'', ''LFT'']
               then [\<lparr>feature = ''smoking_status'', val = PStr ''current'',
                      contribution = 0.12, direction = ''increases''\<rparr>]
               else [])))))"

text \<open>
  \<open>_rule_based_prediction\<close>: the base yield is what the statements
  \<^verbatim>\<open>base_yield += ...\<close> add up to, starting from 0.3. The confidence is the constant 0.7.
\<close>

definition rule_base_yield :: "string \<Rightarrow> bool \<Rightarrow> rat \<Rightarrow> rat \<Rightarrow> bool \<Rightarrow> rat" where
  "rule_base_yield test_code related age bmi smoking_current =
     0.3 + (if related then 0.35 else 0)
         + (if 55 \<le> age then 0.15 else if 45 \<le> age then 0.08 else 0)
         + (if 30 \<le> bmi \<and> test_code \<in> set [''HBA1C'', ''LIPID''] then 0.12 else 0)
         + (if smoking_current
            then (if test_code \<in> set [''ECG'', ''LIPID'', ''LFT''] then 0.1 else 0)
            else 0)"

definition ty_rule_based_prediction :: "string \<Rightarrow> pydict \<Rightarrow> error + yield_prediction" where
  "ty_rule_based_prediction test_code features =
     bind (has_related_condition test_code features) (\<lambda>related.
     bind (as_num (get_default features ''age'' (PInt 35))) (\<lambda>age.
     bind (as_num (get_default features ''bmi'' (PInt 24))) (\<lambda>bmi.
       let base_yield = rule_base_yield test_code related age bmi
                          (get features ''smoking_status'' = PStr ''current'');
           yield_prob = min 0.95 base_yield;
           recommendation = get_recommendation yield_prob test_code;
           contributions =
             [\<lparr>feature = ''rule_based'', val = PFloat yield_prob,
               contribution = yield_prob, direction = ''increases''\<rparr>]
       in Inr (yield_prob, 0.7, recommendation, contributions))))"

text \<open>
  \<open>predict\<close>. The parameter \<open>regressor_predict\<close> is LightGBM's \<^verbatim>\<open>predict\<close> on one row:
  the raw output, whatever its magnitude, or an exception of the library.
\<close>

definition ty_predict ::
    "('r \<Rightarrow> f32 list \<Rightarrow> error + rat) \<Rightarrow> 'r test_yield_model \<Rightarrow> string \<Rightarrow> pydict
     \<Rightarrow> error + yield_prediction" where
  "ty_predict regressor_predict m test_code features =
     (if test_code \<notin> set SUPPORTED_TESTS
        then Inl (ValueError (''Unsupported test: '' @ test_code))
      else if \<not> (case is_fitted m test_code of None \<Rightarrow> False | Some b \<Rightarrow> b)
        then ty_rule_based_prediction test_code features
      else
        bind (ty_extract_features (feature_names m) test_code features) (\<lambda>X.
        bind (case models m test_code of
                None \<Rightarrow> Inl (KeyError test_code)
              | Some None \<Rightarrow> Inl AttributeError
              | Some (Some r) \<Rightarrow> regressor_predict r X) (\<lambda>raw.
          let yield_prob = max 0 (min 1 raw);
              confidence = calculate_confidence features;
              recommendation = get_recommendation yield_prob test_code in
          bind (ty_calculate_contributions test_code features) (\<lambda>contributions.
            Inr (yield_prob, confidence, recommendation, contributions)))))"

text \<open>
  \<open>fit\<close>. LightGBM's training is the parameter \<open>regressor_fit\<close> (it may raise), the
  scikit-learn metrics of the trained regressor on its training data are
  \<open>regressor_metrics\<close>. The result pairs what the call returns or raises with the bank
  as the call leaves it.
\<close>

definition ty_fit ::
    "(f32 list list \<Rightarrow> rat list \<Rightarrow> error + 'r) \<Rightarrow> ('r \<Rightarrow> f32 list list \<Rightarrow> rat list \<Rightarrow> metrics)
     \<Rightarrow> string \<Rightarrow> f32 list list \<Rightarrow> rat list \<Rightarrow> 'r test_yield_model
     \<Rightarrow> (error + metrics) \<times> 'r test_yield_model" where
  "ty_fit regressor_fit regressor_metrics test_code X y m =
     (if test_code \<notin> set SUPPORTED_TESTS
        then (Inl (ValueError (''Unsupported test: '' @ test_code)), m)
      else case regressor_fit X y of
             Inl e \<Rightarrow> (Inl e, m)
           | Inr model \<Rightarrow>
               (let metrics = regressor_metrics model X y
                in (Inr metrics,
                    m\<lparr>models := (models m)(test_code \<mapsto> Some model),
                      is_fitted := (is_fitted m)(test_code \<mapsto> True),
                      training_metrics := (training_metrics m)(test_code \<mapsto> metrics)\<rparr>)))"

section \<open>Persistence\<close>

text \<open>
  The blob store: a path is its components (model directory, version, file name), a
  blob is the dictionary that \<^verbatim>\<open>joblib.dump\<close> receives. The predicate \<open>os_error\<close> says for
  which paths \<^verbatim>\<open>os.makedirs\<close> or \<^verbatim>\<open>joblib.dump\<close> raises.
\<close>

type_synonym path = "string list"

datatype ('c, 'r) blob =
    ComplexityBlob "'c option" "string list" string metrics
  | TestYieldBlob "'r option" "string list" string metrics

type_synonym ('c, 'r) store = "path \<rightharpoonup> ('c, 'r) blob"

text \<open>\<^verbatim>\<open>version or self.version\<close> for an optional string.\<close>

definition or_str :: "string option \<Rightarrow> string \<Rightarrow> string" where
  "or_str ver dflt = (case ver of None \<Rightarrow> dflt | Some v \<Rightarrow> if v = [] then dflt else v)"

definition ty_get_model_path ::
    "string \<Rightarrow> 'r test_yield_model \<Rightarrow> string \<Rightarrow> string option \<Rightarrow> path" where
  "ty_get_model_path model_dir m test_code ver =
     [model_dir, or_str ver (version m), ''test_yield_'' @ lower test_code @ ''.joblib'']"

definition ty_save ::
    "(path \<Rightarrow> bool) \<Rightarrow> string \<Rightarrow> string \<Rightarrow> string option \<Rightarrow> 'r test_yield_model
     \<Rightarrow> ('c, 'r) store \<Rightarrow> (error + path) \<times> ('c, 'r) store" where
  "ty_save os_error model_dir test_code ver m st =
     (case models m test_code of
        None \<Rightarrow> (Inl (ValueError (''No model for test '' @ test_code)), st)
      | Some model \<Rightarrow>
          (let v = or_str ver (version m);
               path = ty_get_model_path model_dir m test_code (Some v)
           in if os_error path then (Inl (OSError (concat path)), st)
              else (Inr path,
                    st(path \<mapsto> TestYieldBlob model (feature_names m) v
                         (case training_metrics m test_code of
                            None \<Rightarrow> Map.empty | Some ms \<Rightarrow> ms)))))"

definition cm_get_model_path :: "string \<Rightarrow> 'c complexity_model \<Rightarrow> string option \<Rightarrow> path" where
  "cm_get_model_path model_dir m ver =
     [model_dir, or_str ver (cm_version m), ''complexity_model.joblib'']"

definition cm_save ::
    "(path \<Rightarrow> bool) \<Rightarrow> string \<Rightarrow> string option \<Rightarrow> 'c complexity_model
     \<Rightarrow> ('c, 'r) store \<Rightarrow> (error + path) \<times> ('c, 'r) store" where
  "cm_save os_error model_dir ver m st =
     (let v = or_str ver (cm_version m);
          path = cm_get_model_path model_dir m (Some v)
      in if os_error path then (Inl (OSError (concat path)), st)
         else (Inr path,
               st(path \<mapsto> ComplexityBlob (cm_model m) (cm_feature_names m) v
                    (cm_training_metrics m))))"

text \<open>
  \<open>ComplexityModel.fit\<close>, with the library's training and metrics as parameters. When
  training raises, the source has already put the untrained wrapper into \<^verbatim>\<open>self.model\<close>
  and left \<^verbatim>\<open>is_fitted\<close> false; the one caller drops that object, and the model here
  is returned as it was.
\<close>

definition cm_fit ::
    "(f32 list list \<Rightarrow> int list \<Rightarrow> error + 'c) \<Rightarrow> ('c \<Rightarrow> f32 list list \<Rightarrow> int list \<Rightarrow> metrics)
     \<Rightarrow> f32 list list \<Rightarrow> int list \<Rightarrow> 'c complexity_model
     \<Rightarrow> (error + metrics) \<times> 'c complexity_model" where
  "cm_fit classifier_fit classifier_metrics X y m =
     (case classifier_fit X y of
        Inl e \<Rightarrow> (Inl e, m)
      | Inr clf \<Rightarrow>
          (let ms = classifier_metrics clf X y
           in (Inr ms, m\<lparr>cm_model := Some clf, cm_is_fitted := True,
                          cm_training_metrics := ms\<rparr>)))"

section \<open>ModelManager (services/model\_manager.py)\<close>

record ('c, 'r) model_manager =
  complexity_model :: "'c complexity_model option"
  test_yield_model :: "'r test_yield_model option"
  current_version :: string

definition update_complexity_model ::
    "'c complexity_model \<Rightarrow> ('c, 'r) model_manager \<Rightarrow> ('c, 'r) model_manager" where
  "update_complexity_model model mgr = mgr\<lparr>complexity_model := Some model\<rparr>"

text \<open>
  \<open>update_test_yield_model\<close>: \<^verbatim>\<open>model.models.get(test_code)\<close> is \<^verbatim>\<open>None\<close> for a missing
  key, and that value is stored under the key.
\<close>

definition update_test_yield_model ::
    "string \<Rightarrow> 'r test_yield_model \<Rightarrow> ('c, 'r) model_manager \<Rightarrow> ('c, 'r) model_manager" where
  "update_test_yield_model test_code model mgr =
     (case test_yield_model mgr of
        None \<Rightarrow> mgr
      | Some active \<Rightarrow>
          mgr\<lparr>test_yield_model := Some (active
            \<lparr>models := (models active)
                 (test_code \<mapsto> (case models model test_code of None \<Rightarrow> None | Some r \<Rightarrow> r)),
             is_fitted := (is_fitted active)(test_code \<mapsto> True)\<rparr>)\<rparr>)"

section \<open>DataLoader: training datasets (training/data\_loader.py)\<close>

text \<open>
  The records the backend returns, with the keys the loader reads. An optional field is
  \<open>None\<close> when the key is absent, and the loader's default applies.
\<close>

record training_case =
  applicant :: "pydict option"
  medicalDisclosures :: "pydict list option"
  sumAssured :: "rat option"
  complexityTier :: "pyval option"
  assignedComplexity :: "pyval option"
  testResults :: "pydict list option"

record context_snapshot =
  ctx_applicant :: "pydict option"
  ctx_disclosures :: "pydict list option"
  ctx_sumAssured :: "rat option"

record override =
  contextSnapshot :: "context_snapshot option"
  underwriterChoice :: "pyval option"
  validated :: "pyval option"
  details_testCode :: "pyval option"
  ov_direction :: "pyval option"

definition opt_dict :: "pydict option \<Rightarrow> pydict" where
  "opt_dict d = (case d of None \<Rightarrow> Map.empty | Some m \<Rightarrow> m)"

definition opt_list :: "'a list option \<Rightarrow> 'a list" where
  "opt_list l = (case l of None \<Rightarrow> [] | Some xs \<Rightarrow> xs)"

definition opt_val :: "pyval option \<Rightarrow> pyval \<Rightarrow> pyval" where
  "opt_val v dflt = (case v of None \<Rightarrow> dflt | Some x \<Rightarrow> x)"

definition opt_sum :: "rat option \<Rightarrow> rat" where
  "opt_sum v = (case v of None \<Rightarrow> 5000000 | Some x \<Rightarrow> x)"

definition empty_context :: context_snapshot where
  "empty_context = \<lparr>ctx_applicant = None, ctx_disclosures = None, ctx_sumAssured = None\<rparr>"

definition tier_map :: "pyval \<Rightarrow> int" where
  "tier_map t =
     (if t = PStr ''ROUTINE'' then 0
      else if t = PStr ''MODERATE'' then 1
      else if t = PStr ''COMPLEX'' then 2
      else 1)"

type_synonym 'y dataset = "f32 list list \<times> 'y list \<times> rat list"

text \<open>
  A dataset is built row by row (an exception of the extraction ends the call), and
  narrowed by \<^verbatim>\<open>np.array\<close> at the end. No row at all gives three empty arrays.
\<close>

definition finish_dataset :: "(pyval list \<times> 'y \<times> rat) list \<Rightarrow> error + 'y dataset" where
  "finish_dataset rows =
     (if rows = [] then Inr ([], [], [])
      else bind (map_err (\<lambda>(x, y, w). np_array_f32 x) rows)
             (\<lambda>X. Inr (X, map (\<lambda>(x, y, w). y) rows, map (\<lambda>(x, y, w). w) rows)))"

definition complexity_case_row :: "training_case \<Rightarrow> error + (pyval list \<times> int \<times> rat)" where
  "complexity_case_row c =
     (let final_tier = py_or (opt_val (complexityTier c) PNone)
                         (opt_val (assignedComplexity c) (PStr ''MODERATE''))
      in bind (extract_case_features (opt_dict (applicant c)) (opt_sum (sumAssured c))
                 (opt_list (medicalDisclosures c)))
           (\<lambda>features. Inr (feature_row complexity_features features, tier_map final_tier, 1)))"

definition complexity_override_row :: "override \<Rightarrow> error + (pyval list \<times> int \<times> rat)" where
  "complexity_override_row ov =
     (let context = (case contextSnapshot ov of None \<Rightarrow> empty_context | Some c \<Rightarrow> c);
          uw_choice = opt_val (underwriterChoice ov) (PStr ''MODERATE'')
      in bind (extract_case_features (opt_dict (ctx_applicant context))
                 (opt_sum (ctx_sumAssured context)) (opt_list (ctx_disclosures context)))
           (\<lambda>features. Inr (feature_row complexity_features features, tier_map uw_choice,
                             if truthy (opt_val (validated ov) PNone) then 2 else 1.5)))"

definition prepare_complexity_dataset ::
    "training_case list \<Rightarrow> override list \<Rightarrow> error + int dataset" where
  "prepare_complexity_dataset cases overrides =
     bind (map_err complexity_case_row cases) (\<lambda>case_rows.
     bind (map_err complexity_override_row overrides) (\<lambda>override_rows.
       finish_dataset (case_rows @ override_rows)))"

definition find_test_result :: "string \<Rightarrow> training_case \<Rightarrow> pydict option" where
  "find_test_result test_code c =
     find (\<lambda>t. get t ''testCode'' = PStr test_code) (opt_list (testResults c))"

definition test_case_row ::
    "string \<Rightarrow> training_case \<times> pydict \<Rightarrow> error + (pyval list \<times> rat \<times> rat)" where
  "test_case_row test_code ct =
     (let c = fst ct; test_result = snd ct;
          was_informative = was_test_informative test_result
      in bind (extract_test_features test_code (opt_dict (applicant c))
                 (opt_sum (sumAssured c)) (opt_list (medicalDisclosures c)))
           (\<lambda>features. Inr (feature_row test_yield_features features,
                             if was_informative then 1 else 0, 1)))"

definition test_override_row ::
    "string \<Rightarrow> override \<Rightarrow> error + (pyval list \<times> rat \<times> rat)" where
  "test_override_row test_code ov =
     (let context = (case contextSnapshot ov of None \<Rightarrow> empty_context | Some c \<Rightarrow> c);
          dir = opt_val (ov_direction ov) (PStr [])
      in bind (extract_test_features test_code (opt_dict (ctx_applicant context))
                 (opt_sum (ctx_sumAssured context)) (opt_list (ctx_disclosures context)))
           (\<lambda>features. Inr (feature_row test_yield_features features,
                             if dir = PStr ''ADD'' then 0.8
                             else if dir = PStr ''REMOVE'' then 0.2 else 0.5,
                             1.5)))"

definition prepare_test_yield_dataset ::
    "string \<Rightarrow> training_case list \<Rightarrow> override list \<Rightarrow> error + rat dataset" where
  "prepare_test_yield_dataset test_code cases overrides =
     bind (map_err (test_case_row test_code)
             (List.map_filter
                (\<lambda>c. map_option (\<lambda>t. (c, t)) (find_test_result test_code c)) cases))
       (\<lambda>case_rows.
     bind (map_err (test_override_row test_code)
             (filter (\<lambda>ov. opt_val (details_testCode ov) PNone = PStr test_code) overrides))
       (\<lambda>override_rows. finish_dataset (case_rows @ override_rows)))"

section \<open>Trainer (training/trainer.py)\<close>

text \<open>
  What a training run reads from outside: the settings, what the two fetches return
  (the loader turns a failed fetch into the empty list), the version string that
  \<open>_generate_version\<close> derives from the clock, the training libraries and the disk.
\<close>

record ('c, 'r) env =
  min_training_samples :: int
  model_dir :: string
  fetched_cases :: "training_case list"
  fetched_complexity_overrides :: "override list"
  fetched_test_overrides :: "override list"
  generated_version :: string
  classifier_fit :: "f32 list list \<Rightarrow> int list \<Rightarrow> error + 'c"
  classifier_metrics :: "'c \<Rightarrow> f32 list list \<Rightarrow> int list \<Rightarrow> metrics"
  regressor_fit :: "f32 list list \<Rightarrow> rat list \<Rightarrow> error + 'r"
  regressor_metrics :: "'r \<Rightarrow> f32 list list \<Rightarrow> rat list \<Rightarrow> metrics"
  os_error :: "path \<Rightarrow> bool"

text \<open>What a run can change: the models the manager serves, and the files on disk.\<close>

record ('c, 'r) world =
  manager :: "('c, 'r) model_manager"
  files :: "('c, 'r) store"

text \<open>
  The text under \<^verbatim>\<open>"error"\<close> or \<^verbatim>\<open>"reason"\<close> of a result, by the place that writes it:
  \<^verbatim>\<open>"No training data available"\<close> and \<^verbatim>\<open>"No training data"\<close>, the message
  \<^verbatim>\<open>"Insufficient ... samples: n < min"\<close> with its two numbers,
  \<^verbatim>\<open>"No models could be trained"\<close>, and \<^verbatim>\<open>str(e)\<close> of a caught exception.
\<close>

datatype failure =
    NoTrainingData
  | InsufficientSamples nat int
  | NoModelsTrained
  | Raised error

record test_outcome =
  to_test_code :: string
  to_status :: string
  to_reason :: "failure option"
  to_error :: "failure option"
  to_samples_used :: "nat option"
  to_metrics :: "metrics option"
  to_model_path :: "path option"

text \<open>The result dictionary of a run; the two timestamps are left out but for their presence.\<close>

record run_outcome =
  ro_model_type :: string
  ro_status :: string
  ro_error :: "failure option"
  ro_samples_used :: "nat option"
  ro_metrics :: "metrics option"
  ro_version :: "string option"
  ro_model_path :: "path option"
  ro_models :: "(string \<times> test_outcome) list"
  ro_completed_at :: bool

definition running :: "string \<Rightarrow> run_outcome" where
  "running mtype =
     \<lparr>ro_model_type = mtype, ro_status = ''running'', ro_error = None,
      ro_samples_used = None, ro_metrics = None, ro_version = None, ro_model_path = None,
      ro_models = [], ro_completed_at = False\<rparr>"

definition train_complexity_model ::
    "('c, 'r) env \<Rightarrow> bool \<Rightarrow> string option \<Rightarrow> ('c, 'r) world \<Rightarrow> run_outcome \<times> ('c, 'r) world" where
  "train_complexity_model env force new_version w =
     (let result = running ''complexity'' in
      case prepare_complexity_dataset (fetched_cases env) (fetched_complexity_overrides env) of
        Inl e \<Rightarrow>
          (result\<lparr>ro_status := ''failed'', ro_error := Some (Raised e),
                  ro_completed_at := True\<rparr>, w)
      | Inr (X, y, sample_weights) \<Rightarrow>
          if length X = 0 then
            (result\<lparr>ro_status := ''failed'', ro_error := Some NoTrainingData\<rparr>, w)
          else if int (length X) < min_training_samples env \<and> \<not> force then
            (result\<lparr>ro_status := ''failed'',
                    ro_error := Some (InsufficientSamples (length X)
                                        (min_training_samples env))\<rparr>, w)
          else
            (case cm_fit (classifier_fit env) (classifier_metrics env) X y
                    new_complexity_model of
               (Inl e, model) \<Rightarrow>
                 (result\<lparr>ro_status := ''failed'', ro_error := Some (Raised e),
                         ro_completed_at := True\<rparr>, w)
             | (Inr ms, model) \<Rightarrow>
                 (let v = or_str new_version (generated_version env);
                      model = model\<lparr>cm_version := v\<rparr>
                  in case cm_save (os_error env) (model_dir env) (Some v) model (files w) of
                       (Inl e, st) \<Rightarrow>
                         (result\<lparr>ro_status := ''failed'', ro_error := Some (Raised e),
                                 ro_completed_at := True\<rparr>, w\<lparr>files := st\<rparr>)
                     | (Inr model_path, st) \<Rightarrow>
                         (result\<lparr>ro_status := ''completed'',
                                 ro_samples_used := Some (length X),
                                 ro_metrics := Some ms, ro_version := Some v,
                                 ro_model_path := Some model_path,
                                 ro_completed_at := True\<rparr>,
                          \<lparr>manager = update_complexity_model model (manager w),
                           files = st\<rparr>))))"

text \<open>
  \<open>train_test_yield_model\<close> fits the bank the manager serves, in place; \<open>install\<close>
  writes the changed bank back where the source mutates the shared object. When the
  manager holds no bank, a fresh one is used and dropped.
\<close>

definition train_test_yield_model ::
    "('c, 'r) env \<Rightarrow> string \<Rightarrow> training_case list \<Rightarrow> override list \<Rightarrow> bool \<Rightarrow> string option
     \<Rightarrow> ('c, 'r) world \<Rightarrow> test_outcome \<times> ('c, 'r) world" where
  "train_test_yield_model env test_code cases overrides force ver w =
     (let result =
            \<lparr>to_test_code = test_code, to_status = ''running'', to_reason = None,
             to_error = None, to_samples_used = None, to_metrics = None,
             to_model_path = None\<rparr>
      in
      case prepare_test_yield_dataset test_code cases overrides of
        Inl e \<Rightarrow> (result\<lparr>to_status := ''failed'', to_error := Some (Raised e)\<rparr>, w)
      | Inr (X, y, sample_weights) \<Rightarrow>
          if length X = 0 then
            (result\<lparr>to_status := ''skipped'', to_reason := Some NoTrainingData\<rparr>, w)
          else
            (let min_samples = min_training_samples env div 2 in
             if int (length X) < min_samples \<and> \<not> force then
               (result\<lparr>to_status := ''skipped'',
                       to_reason := Some (InsufficientSamples (length X) min_samples)\<rparr>, w)
             else
               (let test_model =
                      (case test_yield_model (manager w) of
                         None \<Rightarrow> new_test_yield_model | Some m \<Rightarrow> m);
                    install =
                      (\<lambda>m. case test_yield_model (manager w) of
                              None \<Rightarrow> manager w
                            | Some old \<Rightarrow> (manager w)\<lparr>test_yield_model := Some m\<rparr>)
                in case ty_fit (regressor_fit env) (regressor_metrics env) test_code X y
                          test_model of
                     (Inl e, m1) \<Rightarrow>
                       (result\<lparr>to_status := ''failed'', to_error := Some (Raised e)\<rparr>,
                        w\<lparr>manager := install m1\<rparr>)
                   | (Inr ms, m1) \<Rightarrow>
                       (let v = or_str ver (generated_version env);
                            m2 = m1\<lparr>version := v\<rparr>
                        in case ty_save (os_error env) (model_dir env) test_code (Some v) m2
                                  (files w) of
                             (Inl e, st) \<Rightarrow>
                               (result\<lparr>to_status := ''failed'',
                                       to_error := Some (Raised e)\<rparr>,
                                \<lparr>manager = install m2, files = st\<rparr>)
                           | (Inr model_path, st) \<Rightarrow>
                               (result\<lparr>to_status := ''completed'',
                                       to_samples_used := Some (length X),
                                       to_metrics := Some ms,
                                       to_model_path := Some model_path\<rparr>,
                                \<lparr>manager = install m2, files = st\<rparr>)))))"

text \<open>The loop over the supported tests: one outcome per test code, in order.\<close>

definition train_each ::
    "('c, 'r) env \<Rightarrow> bool \<Rightarrow> string
     \<Rightarrow> (string \<times> test_outcome) list \<times> ('c, 'r) world \<Rightarrow> string
     \<Rightarrow> (string \<times> test_outcome) list \<times> ('c, 'r) world" where
  "train_each env force ver acc test_code =
     (let model_result =
            train_test_yield_model env test_code (fetched_cases env)
              (fetched_test_overrides env) force (Some ver) (snd acc)
      in (fst acc @ [(test_code, fst model_result)], snd model_result))"

definition train_all_test_yield_models ::
    "('c, 'r) env \<Rightarrow> bool \<Rightarrow> ('c, 'r) world \<Rightarrow> run_outcome \<times> ('c, 'r) world" where
  "train_all_test_yield_models env force w =
     (let result = running ''test_yield'';
          ver = generated_version env;
          looped = foldl (train_each env force ver) ([], w) SUPPORTED_TESTS;
          result = result\<lparr>ro_models := fst looped\<rparr>;
          succeeded = length (filter (\<lambda>r. to_status (snd r) = ''completed'') (fst looped))
      in if 0 < succeeded
         then (result\<lparr>ro_status := ''completed'', ro_version := Some ver,
                       ro_completed_at := True\<rparr>, snd looped)
         else (result\<lparr>ro_status := ''failed'', ro_error := Some NoModelsTrained,
                       ro_completed_at := True\<rparr>, snd looped))"

text \<open>\<open>train\<close>: the dispatch on the model type.\<close>

definition train ::
    "('c, 'r) env \<Rightarrow> string \<Rightarrow> bool \<Rightarrow> ('c, 'r) world
     \<Rightarrow> error + run_outcome \<times> ('c, 'r) world" where
  "train env mtype force w =
     (if mtype = ''complexity'' then Inr (train_complexity_model env force None w)
      else if mtype = ''test_yield'' then Inr (train_all_test_yield_models env force w)
      else Inl (ValueError (''Unknown model type: '' @ mtype)))"

section \<open>Example values\<close>

text \<open>
  Concrete stand-ins for the library parameters, used where a property is evaluated on
  an explicit input: a regressor that is the number it always predicts, a training
  routine that returns it, no metrics, and a disk that never refuses a write.
\<close>

definition constant_regressor :: "rat \<Rightarrow> f32 list \<Rightarrow> error + rat" where
  "constant_regressor r X = Inr r"

definition fit_constant :: "rat \<Rightarrow> f32 list list \<Rightarrow> rat list \<Rightarrow> error + rat" where
  "fit_constant r X y = Inr r"

definition no_metrics :: "rat \<Rightarrow> f32 list list \<Rightarrow> rat list \<Rightarrow> metrics" where
  "no_metrics r X y = Map.empty"

definition disk_ok :: "path \<Rightarrow> bool" where
  "disk_ok p = False"

text \<open>A bank whose ECG regressor was fitted and always predicts \<open>r\<close>.\<close>

definition ecg_bank :: "rat \<Rightarrow> rat test_yield_model" where
  "ecg_bank r = snd (ty_fit (fit_constant r) no_metrics ''ECG'' [] [] new_test_yield_model)"

text \<open>The manager as \<open>_load_models\<close> leaves it when no model file exists.\<close>

definition empty_manager :: "(rat, rat) model_manager" where
  "empty_manager =
     \<lparr>complexity_model = Some new_complexity_model,
      test_yield_model = Some new_test_yield_model, current_version = ''v1''\<rparr>"

text \<open>The applicant of a request that sets no field: every key present, every value \<^verbatim>\<open>None\<close>.\<close>

definition blank_applicant :: pydict where
  "blank_applicant =
     [''age'' \<mapsto> PNone, ''bmi'' \<mapsto> PNone, ''smoking_status'' \<mapsto> PNone,
      ''height_cm'' \<mapsto> PNone, ''weight_kg'' \<mapsto> PNone]"

text \<open>
  A training environment for concrete runs: two completed cases, each with results for
  the tests HBA1C, LIPID and ECG and for no other test, no overrides, a configured
  minimum of \<open>n\<close> samples, training libraries that do not raise, and a disk that does
  not refuse. \<open>full_disk_env\<close> is the same with a disk that refuses every write.
\<close>

definition fit_classifier :: "f32 list list \<Rightarrow> int list \<Rightarrow> error + rat" where
  "fit_classifier X y = Inr 0"

definition no_classifier_metrics :: "rat \<Rightarrow> f32 list list \<Rightarrow> int list \<Rightarrow> metrics" where
  "no_classifier_metrics c X y = Map.empty"

definition example_case :: training_case where
  "example_case =
     \<lparr>applicant = Some [''age'' \<mapsto> PInt 50, ''bmi'' \<mapsto> PFloat 27],
      medicalDisclosures = None, sumAssured = None,
      complexityTier = Some (PStr ''ROUTINE''), assignedComplexity = None,
      testResults = Some [[''testCode'' \<mapsto> PStr ''HBA1C'',
                           ''resultStatus'' \<mapsto> PStr ''abnormal''],
                          [''testCode'' \<mapsto> PStr ''LIPID''],
                          [''testCode'' \<mapsto> PStr ''ECG'']]\<rparr>"

definition example_env :: "int \<Rightarrow> (rat, rat) env" where
  "example_env n =
     \<lparr>min_training_samples = n, model_dir = ''models'',
      fetched_cases = [example_case, example_case],
      fetched_complexity_overrides = [], fetched_test_overrides = [],
      generated_version = ''v20260101_000000'',
      classifier_fit = fit_classifier, classifier_metrics = no_classifier_metrics,
      regressor_fit = fit_constant (1 / 2), regressor_metrics = no_metrics,
      os_error = disk_ok\<rparr>"

definition example_world :: "(rat, rat) world" where
  "example_world = \<lparr>manager = empty_manager, files = Map.empty\<rparr>"









section \<open>General lemmas\<close>

lemma bind_Inr_iff: "bind m k = Inr z \<longleftrightarrow> (\<exists>x. m = Inr x \<and> k x = Inr z)"
  by (cases m) (simp_all add: bind_def)

lemma bind_Inr [simp]: "bind (Inr x) k = k x"
  by (simp add: bind_def)

lemma bind_Inl [simp]: "bind (Inl e) k = Inl e"
  by (simp add: bind_def)

section \<open>TestYieldModel: prediction\<close>

lemma rule_base_yield_ge: "0.3 \<le> rule_base_yield t related age bmi smoking"
  by (simp add: rule_base_yield_def)

text \<open>The fallback path: the confidence is the constant, the yield is capped at 0.95.\<close>

lemma ty_rule_based_shape:
  assumes "ty_rule_based_prediction t f = Inr (y, c, r, cs)"
  shows "c = 0.7 \<and> 0.3 \<le> y \<and> y \<le> 0.95"
proof -
  from assms obtain related age bmi where
    y: "y = min 0.95 (rule_base_yield t related age bmi
                        (get f ''smoking_status'' = PStr ''current''))"
    and c: "c = 0.7"
    by (auto simp: ty_rule_based_prediction_def bind_Inr_iff Let_def)
  have "0.3 \<le> rule_base_yield t related age bmi (get f ''smoking_status'' = PStr ''current'')"
    by (rule rule_base_yield_ge)
  with y c show ?thesis by (simp add: min_def)
qed

text \<open>The fitted path: the confidence is the completeness score, the yield is clamped.\<close>

lemma ty_fitted_shape:
  assumes "t \<in> set SUPPORTED_TESTS"
    and "is_fitted m t = Some True"
    and "ty_predict rp m t f = Inr (y, c, r, cs)"
  shows "c = calculate_confidence f \<and> 0 \<le> y \<and> y \<le> 1"
  using assms by (auto simp: ty_predict_def bind_Inr_iff Let_def)

lemma ty_predict_supported:
  assumes "ty_predict rp m t f = Inr res"
  shows "t \<in> set SUPPORTED_TESTS"
  using assms by (auto simp: ty_predict_def split: if_splits)

lemma ty_predict_unfitted:
  assumes "t \<in> set SUPPORTED_TESTS" and "is_fitted m t \<noteq> Some True"
  shows "ty_predict rp m t f = ty_rule_based_prediction t f"
  using assms by (auto simp: ty_predict_def split: option.splits)

text \<open>
  The completeness score in closed form: 0.5, plus 0.15 for each of \<^verbatim>\<open>age\<close> and \<^verbatim>\<open>bmi\<close>
  that is present and not \<^verbatim>\<open>None\<close>, plus 0.05 for each of the three optional fields,
  capped at 0.95.
\<close>

lemma calculate_confidence_formula:
  "calculate_confidence f =
     min 0.95 (0.5 + 0.15 * of_nat (length (filter (present f) [''age'', ''bmi'']))
                   + 0.05 * of_nat (length (filter (present f)
                                [''smoking_status'', ''has_diabetes'', ''has_cardiac''])))"
  by (simp add: calculate_confidence_def Let_def)

text \<open>
  C7. Whatever \<open>predict\<close> returns, for any bank, test code and feature map, and whatever
  the raw output of the regressor, the yield lies between 0 and 1.
\<close>

theorem ty_predict_yield_in_unit_interval:
  assumes "ty_predict rp m t f = Inr (y, c, r, cs)"
  shows "0 \<le> y \<and> y \<le> 1"
proof (cases "is_fitted m t = Some True")
  case True
  with assms ty_predict_supported[OF assms] show ?thesis
    using ty_fitted_shape by blast
next
  case False
  with assms ty_predict_supported[OF assms]
  have "ty_rule_based_prediction t f = Inr (y, c, r, cs)"
    by (simp add: ty_predict_unfitted)
  from ty_rule_based_shape[OF this] show ?thesis by simp
qed

text \<open>
  A fitted regressor whose raw output is 5 gives the yield 1, and one whose raw output
  is -3 gives the yield 0.
\<close>

theorem ty_predict_yield_in_unit_interval_witness:
  "ty_predict constant_regressor (ecg_bank 5) ''ECG'' [''age'' \<mapsto> PInt 50] =
     Inr (1, 13 / 20, ''recommended'',
          [\<lparr>feature = ''age'', val = PInt 50, contribution = 1 / 20,
            direction = ''increases''\<rparr>])
   \<and> ty_predict constant_regressor (ecg_bank (- 3)) ''ECG'' Map.empty =
       Inr (0, 1 / 2, ''low_yield'', [])
   \<and> (0::rat) \<le> 1 \<and> (1::rat) \<le> 1"
proof -
  have a: "ty_predict constant_regressor (ecg_bank 5) ''ECG'' [''age'' \<mapsto> PInt 50] =
     Inr (1, 13 / 20, ''recommended'',
          [\<lparr>feature = ''age'', val = PInt 50, contribution = 1 / 20,
            direction = ''increases''\<rparr>])"
    by code_simp
  have b: "ty_predict constant_regressor (ecg_bank (- 3)) ''ECG'' Map.empty =
       Inr (0, 1 / 2, ''low_yield'', [])"
    by code_simp
  from a b ty_predict_yield_in_unit_interval[OF a] show ?thesis by simp
qed

text \<open>
  C6, as the code has it. On the fitted path the confidence that \<open>predict\<close> returns is
  the completeness score (0.5, plus 0.15 for each of age and bmi present and not
  \<^verbatim>\<open>None\<close>, plus 0.05 for each of smoking status, diabetes flag and cardiac flag present
  and not \<^verbatim>\<open>None\<close>, capped at 0.95), whatever the yield. On the fallback path it is the
  constant 0.7, whatever the features.
\<close>

theorem ty_predict_confidence:
  assumes "ty_predict rp m t f = Inr (y, c, r, cs)"
  shows "(is_fitted m t = Some True \<longrightarrow>
            c = min 0.95 (0.5 + 0.15 * of_nat (length (filter (present f) [''age'', ''bmi'']))
                   + 0.05 * of_nat (length (filter (present f)
                                [''smoking_status'', ''has_diabetes'', ''has_cardiac'']))))
       \<and> (is_fitted m t \<noteq> Some True \<longrightarrow> c = 0.7)"
proof (cases "is_fitted m t = Some True")
  case True
  with assms ty_predict_supported[OF assms] have "c = calculate_confidence f"
    using ty_fitted_shape by blast
  with True show ?thesis by (simp only: calculate_confidence_formula) simp
next
  case False
  with assms ty_predict_supported[OF assms]
  have "ty_rule_based_prediction t f = Inr (y, c, r, cs)"
    by (simp add: ty_predict_unfitted)
  from ty_rule_based_shape[OF this] False show ?thesis by simp
qed

theorem ty_predict_confidence_witness:
  "ty_predict constant_regressor (ecg_bank 5) ''ECG'' [''age'' \<mapsto> PInt 50] =
     Inr (1, 13 / 20, ''recommended'',
          [\<lparr>feature = ''age'', val = PInt 50, contribution = 1 / 20,
            direction = ''increases''\<rparr>])
   \<and> is_fitted (ecg_bank 5) ''ECG'' = Some True
   \<and> (13 / 20 :: rat) = min 0.95 (0.5 + 0.15 * 1 + 0.05 * 0)"
proof -
  have a: "ty_predict constant_regressor (ecg_bank 5) ''ECG'' [''age'' \<mapsto> PInt 50] =
     Inr (1, 13 / 20, ''recommended'',
          [\<lparr>feature = ''age'', val = PInt 50, contribution = 1 / 20,
            direction = ''increases''\<rparr>])"
    by code_simp
  have b: "is_fitted (ecg_bank 5) ''ECG'' = Some True"
    by code_simp
  from a b ty_predict_confidence[OF a] show ?thesis by simp
qed

text \<open>
  C6 as stated fails on the fallback path: an unfitted bank, asked about CBC with an
  empty feature map, returns the confidence 0.7, while the completeness score of the
  empty map is 0.5.
\<close>

theorem ty_predict_confidence_counterexample:
  "ty_predict constant_regressor (new_test_yield_model :: rat test_yield_model) ''CBC'' Map.empty =
     Inr (3 / 10, 7 / 10, ''optional'',
          [\<lparr>feature = ''rule_based'', val = PFloat (3 / 10), contribution = 3 / 10,
            direction = ''increases''\<rparr>])
   \<and> calculate_confidence Map.empty = 1 / 2"
  by code_simp

section \<open>TestYieldModel: unsupported test codes\<close>

lemma ty_fit_keeps_keys_supported:
  assumes "dom (models m) \<subseteq> set SUPPORTED_TESTS"
  shows "dom (models (snd (ty_fit rf rm t X y m))) \<subseteq> set SUPPORTED_TESTS"
  using assms by (auto simp: ty_fit_def Let_def split: sum.splits if_splits)

lemma new_test_yield_model_keys: "dom (models new_test_yield_model) \<subseteq> set SUPPORTED_TESTS"
  by (simp add: new_test_yield_model_def)

text \<open>
  C5, as the code has it. For a test code outside the supported set, \<open>fit\<close> and
  \<open>predict\<close> raise the unsupported-test error before any other work, for every input,
  and \<open>fit\<close> leaves the bank as it was. \<open>save\<close> does not look at the supported set: it
  raises \<^verbatim>\<open>ValueError("No model for test ...")\<close>, and writes nothing, when the bank has no
  entry under the code. That is so for every unsupported code in a bank whose keys are
  supported codes, as construction and \<open>fit\<close> keep them.
\<close>

theorem unsupported_test_refused:
  assumes "t \<notin> set SUPPORTED_TESTS"
  shows "ty_fit rf rm t X y m = (Inl (ValueError (''Unsupported test: '' @ t)), m)
       \<and> ty_predict rp m t f = Inl (ValueError (''Unsupported test: '' @ t))
       \<and> (models m t = None \<longrightarrow>
            ty_save ose dir t ver m st = (Inl (ValueError (''No model for test '' @ t)), st))
       \<and> (dom (models m) \<subseteq> set SUPPORTED_TESTS \<longrightarrow>
            ty_save ose dir t ver m st = (Inl (ValueError (''No model for test '' @ t)), st))"
  using assms by (auto simp: ty_fit_def ty_predict_def ty_save_def split: option.splits)

theorem unsupported_test_refused_witness:
  "''XYZ'' \<notin> set SUPPORTED_TESTS
   \<and> ty_fit (fit_constant 5) no_metrics ''XYZ'' [] [] (ecg_bank 5) =
       (Inl (ValueError ''Unsupported test: XYZ''), ecg_bank 5)
   \<and> ty_predict constant_regressor (ecg_bank 5) ''XYZ'' Map.empty =
       Inl (ValueError ''Unsupported test: XYZ'')
   \<and> models (ecg_bank 5) ''XYZ'' = None
   \<and> ty_save disk_ok ''models'' ''XYZ'' None (ecg_bank 5) (Map.empty :: (rat, rat) store) =
       (Inl (ValueError ''No model for test XYZ''), Map.empty)"
proof -
  have a: "''XYZ'' \<notin> set SUPPORTED_TESTS"
    by (simp add: SUPPORTED_TESTS_def)
  have b: "models (ecg_bank 5) ''XYZ'' = None"
    by code_simp
  from a b
    unsupported_test_refused[OF a, where rf = "fit_constant 5" and rm = no_metrics
      and X = "[]" and y = "[]" and m = "ecg_bank 5" and rp = constant_regressor
      and f = Map.empty and ose = disk_ok and dir = "''models''" and ver = None
      and st = "Map.empty :: (rat, rat) store"]
  show ?thesis by simp
qed

text \<open>
  C5 as stated fails for \<open>save\<close>: after \<open>update_test_yield_model\<close> has been called with
  the code XYZ, the active bank holds the key XYZ, and \<open>save\<close> of XYZ returns the path of
  the file it wrote.
\<close>

theorem unsupported_test_save_counterexample:
  "''XYZ'' \<notin> set SUPPORTED_TESTS
   \<and> fst (ty_save disk_ok ''models'' ''XYZ'' None
            (the (test_yield_model
                    (update_test_yield_model ''XYZ'' new_test_yield_model empty_manager)))
            (Map.empty :: (rat, rat) store))
       = Inr [''models'', ''v1'', ''test_yield_xyz.joblib'']"
  by code_simp

section \<open>ModelManager: hot swap of one test's regressor\<close>

text \<open>
  C10. When the manager holds an active bank, \<open>update_test_yield_model t m\<close> sets the
  active fitted flag of \<open>t\<close> to true whatever \<open>m\<close> holds, stores under \<open>t\<close> what
  \<^verbatim>\<open>m.models.get(t)\<close> gives (\<^verbatim>\<open>None\<close> when \<open>m\<close> has no regressor for \<open>t\<close>), and leaves the
  regressor and the flag of every other test code, the rest of the bank and the rest of
  the manager unchanged.
\<close>

theorem update_test_yield_model_frame:
  assumes "test_yield_model mgr = Some active"
  shows "\<exists>active'.
       test_yield_model (update_test_yield_model t m mgr) = Some active'
     \<and> is_fitted active' t = Some True
     \<and> models active' t = Some (case models m t of None \<Rightarrow> None | Some r \<Rightarrow> r)
     \<and> (models m t = None \<longrightarrow> models active' t = Some None)
     \<and> (\<forall>t'. t' \<noteq> t \<longrightarrow>
            models active' t' = models active t' \<and> is_fitted active' t' = is_fitted active t')
     \<and> feature_names active' = feature_names active
     \<and> version active' = version active
     \<and> training_metrics active' = training_metrics active
     \<and> complexity_model (update_test_yield_model t m mgr) = complexity_model mgr
     \<and> current_version (update_test_yield_model t m mgr) = current_version mgr"
  using assms by (simp add: update_test_yield_model_def)

theorem update_test_yield_model_frame_witness:
  "test_yield_model empty_manager = Some new_test_yield_model
   \<and> (\<exists>active'.
        test_yield_model (update_test_yield_model ''ECG'' new_test_yield_model empty_manager)
          = Some active'
      \<and> is_fitted active' ''ECG'' = Some True
      \<and> models active' ''ECG'' = Some None
      \<and> models active' ''LIPID'' = None
      \<and> is_fitted active' ''LIPID'' = Some False)"
proof -
  have a: "test_yield_model empty_manager = Some new_test_yield_model"
    by (simp add: empty_manager_def)
  have b: "models (new_test_yield_model :: rat test_yield_model) ''ECG'' = None"
    "models (new_test_yield_model :: rat test_yield_model) ''LIPID'' = None"
    "is_fitted (new_test_yield_model :: rat test_yield_model) ''LIPID'' = Some False"
    by (simp_all add: new_test_yield_model_def SUPPORTED_TESTS_def)
  from update_test_yield_model_frame[OF a, of "''ECG''" new_test_yield_model]
  obtain active' where
    "test_yield_model (update_test_yield_model ''ECG'' new_test_yield_model empty_manager)
       = Some active'"
    "is_fitted active' ''ECG'' = Some True"
    "models active' ''ECG''
       = Some (case models (new_test_yield_model :: rat test_yield_model) ''ECG'' of
                 None \<Rightarrow> None | Some r \<Rightarrow> r)"
    "\<forall>t'. t' \<noteq> ''ECG'' \<longrightarrow>
        models active' t' = models (new_test_yield_model :: rat test_yield_model) t'
      \<and> is_fitted active' t' = is_fitted (new_test_yield_model :: rat test_yield_model) t'"
    by blast
  with a b show ?thesis by auto
qed

section \<open>ComplexityModel: the rule-based fallback\<close>

text \<open>
  The unfitted model scores a feature map whose \<^verbatim>\<open>age\<close>, \<^verbatim>\<open>bmi\<close> and \<^verbatim>\<open>sum_assured\<close> are
  numbers (or absent) by the sum of the increments, and maps the score to the tier and
  its fixed probabilities.
\<close>

lemma cm_predict_unfitted_numeric:
  assumes "\<not> cm_is_fitted m"
    and "as_num (get_default f ''age'' (PInt 35)) = Inr age"
    and "as_num (get_default f ''bmi'' (PInt 24)) = Inr bmi"
    and "as_num (get_default f ''sum_assured'' (PInt 0)) = Inr sa"
    and "score = rule_score age bmi (get f ''smoking_status'' = PStr ''current'')
                   (truthy (get f ''has_cardiac'')) (truthy (get f ''has_diabetes''))
                   (truthy (get f ''has_renal'')) sa"
  shows "cm_predict pp cc m f =
           Inr (fst (tier_of_score score),
                the (snd (tier_of_score score) (fst (tier_of_score score))),
                snd (tier_of_score score),
                [\<lparr>feature = ''rule_based'', val = PFloat score, contribution = score,
                  direction = ''increases''\<rparr>])"
  using assms by (simp add: cm_predict_def cm_rule_based_prediction_def Let_def)

lemma tier_of_score_cases:
  "tier_of_score s =
     (if 0.6 \<le> s then
        (''COMPLEX'', [''ROUTINE'' \<mapsto> 0.1, ''MODERATE'' \<mapsto> 0.2, ''COMPLEX'' \<mapsto> 0.7])
      else if 0.3 \<le> s then
        (''MODERATE'', [''ROUTINE'' \<mapsto> 0.2, ''MODERATE'' \<mapsto> 0.6, ''COMPLEX'' \<mapsto> 0.2])
      else
        (''ROUTINE'', [''ROUTINE'' \<mapsto> 0.7, ''MODERATE'' \<mapsto> 0.2, ''COMPLEX'' \<mapsto> 0.1]))"
  by (simp add: tier_of_score_def)

text \<open>
  The worked example of the specification, through the service: age 60, bmi 32, current
  smoker, one condition "Coronary artery disease", sum assured 12,000,000. The score is
  1.3, the tier COMPLEX, the confidence 0.7.
\<close>

lemma cm_predict_unfitted_example:
  "bind (prepare_complexity_features
           [''age'' \<mapsto> PInt 60, ''bmi'' \<mapsto> PInt 32, ''smoking_status'' \<mapsto> PStr ''current'']
           12000000
           [[''disclosure_type'' \<mapsto> PStr ''condition'',
             ''condition_name'' \<mapsto> PStr ''Coronary artery disease'']] [])
     (\<lambda>f. bind (cm_predict pp cc (new_complexity_model :: 'c complexity_model) f)
        (\<lambda>(tier, conf, probs, cs).
           Inr (tier, conf, probs ''ROUTINE'', probs ''MODERATE'', probs ''COMPLEX'', cs)))
   = Inr (''COMPLEX'', 7 / 10, Some (1 / 10), Some (2 / 10), Some (7 / 10),
          [\<lparr>feature = ''rule_based'', val = PFloat (13 / 10), contribution = 13 / 10,
            direction = ''increases''\<rparr>])"
  by (simp add: prepare_complexity_features_def bind_def get_def get_default_def cm_predict_def
        new_complexity_model_def cm_rule_based_prediction_def as_num_def Let_def rule_score_def
        tier_of_score_def py_lower_def lower_def lower_char_def any_in_def)

text \<open>
  C2 at the input where the code departs from it. A request whose applicant sets no
  field reaches the unfitted model with \<^verbatim>\<open>age\<close> present and \<^verbatim>\<open>None\<close>; the default 35 of
  \<^verbatim>\<open>features.get("age", 35)\<close> does not apply, and \<^verbatim>\<open>None >= 65\<close> raises \<open>TypeError\<close>: no
  rule-based result is returned.
\<close>

theorem cm_predict_unfitted_blank_applicant:
  "bind (prepare_complexity_features blank_applicant 5000000 [] [])
     (cm_predict pp cc (new_complexity_model :: 'c complexity_model)) = Inl TypeError"
  by (simp add: prepare_complexity_features_def blank_applicant_def bind_def get_def
        get_default_def cm_predict_def new_complexity_model_def cm_rule_based_prediction_def
        as_num_def Let_def)

section \<open>FeatureEngineer: falsy values, and the clock\<close>

lemma get_upd_same [simp]: "get (a(k \<mapsto> v)) k = v"
  by (simp add: get_def)

lemma get_del_same [simp]: "get (a(k := None)) k = PNone"
  by (simp add: get_def)

lemma get_upd_other [simp]: "k' \<noteq> k \<Longrightarrow> get (a(k \<mapsto> v)) k' = get a k'"
  by (simp add: get_def)

lemma get_del_other [simp]: "k' \<noteq> k \<Longrightarrow> get (a(k := None)) k' = get a k'"
  by (simp add: get_def)

lemma calculate_bmi_falsy [simp]:
  "\<not> truthy h \<Longrightarrow> calculate_bmi h w = Inr PNone"
  "\<not> truthy w \<Longrightarrow> calculate_bmi h w = Inr PNone"
  by (simp_all add: calculate_bmi_def)

lemma py_or_falsy [simp]: "\<not> truthy v \<Longrightarrow> py_or v x = x"
  by (simp add: py_or_def)


lemma condition_flags_no_scalars:
  assumes "extract_condition_flags ds = Inr cf"
  shows "cf ''age'' = None \<and> cf ''bmi'' = None"
  using assms by (auto simp: extract_condition_flags_def bind_Inr_iff)

lemma family_flags_no_scalars:
  assumes "extract_family_history_flags ds = Inr ff"
  shows "ff ''age'' = None \<and> ff ''bmi'' = None"
  using assms by (auto simp: extract_family_history_flags_def bind_Inr_iff)

lemma counts_no_scalars:
  "count_disclosures ds ''age'' = None \<and> count_disclosures ds ''bmi'' = None"
  by (simp add: count_disclosures_def Let_def)

text \<open>With nothing else to derive them from, falsy age and bmi come out as 35 and 24.\<close>

lemma prepare_features_falsy_defaults:
  assumes "\<not> truthy v_age" and "\<not> truthy v_bmi"
    and "\<not> truthy (get a ''date_of_birth'')"
    and "\<not> truthy (get a ''height_cm'') \<or> \<not> truthy (get a ''weight_kg'')"
    and cf: "extract_condition_flags ds = Inr cf"
    and ff: "extract_family_history_flags ds = Inr ff"
  shows "prepare_features fi today (a(''age'' \<mapsto> v_age, ''bmi'' \<mapsto> v_bmi)) sa ds
           [''age'', ''bmi''] = Inr [F 35, F 24]"
proof -
  have bmi: "calculate_bmi (get a ''height_cm'') (get a ''weight_kg'') = Inr PNone"
    using assms(4) by auto
  have age: "calculate_age fi today (get a ''date_of_birth'') = PNone"
    using assms(3) by (simp add: calculate_age_def)
  have none: "cf ''age'' = None" "cf ''bmi'' = None" "ff ''age'' = None" "ff ''bmi'' = None"
    "count_disclosures ds ''age'' = None" "count_disclosures ds ''bmi'' = None"
    using condition_flags_no_scalars[OF cf] family_flags_no_scalars[OF ff]
      counts_no_scalars[of ds]
    by simp_all
  show ?thesis
    using assms(1,2) bmi age none cf ff
    by (simp add: prepare_features_def Let_def get_default_def map_add_def np_array_f32_def
          to_f32_def)
qed







text \<open>
  C8, as the code has it. \<open>prepare_features\<close> is a function of its four arguments and
  of the date of the call. The date does not matter when the applicant gives a truthy
  age, or gives no date of birth that can be used (absent, falsy, not a string, or not
  parsable): then two calls at any two dates return the same vector.
\<close>

theorem prepare_features_clock_independent:
  assumes "truthy (get a ''age'') \<or> \<not> truthy (get a ''date_of_birth'')
           \<or> (\<forall>s. get a ''date_of_birth'' = PStr s \<longrightarrow> fi (replace_Z s) = None)"
  shows "prepare_features fi t1 a sa ds fns = prepare_features fi t2 a sa ds fns"
proof -
  have "py_or (get a ''age'') (calculate_age fi t1 (get a ''date_of_birth''))
      = py_or (get a ''age'') (calculate_age fi t2 (get a ''date_of_birth''))"
    using assms by (auto simp: py_or_def calculate_age_def split: pyval.splits option.splits)
  then show ?thesis by (simp add: prepare_features_def)
qed

theorem prepare_features_clock_independent_witness:
  "truthy (get [''age'' \<mapsto> PInt 40, ''date_of_birth'' \<mapsto> PStr ''2000-06-15''] ''age'')
   \<and> prepare_features iso_date_only \<lparr>year = 2026, month = 6, day = 14\<rparr>
        [''age'' \<mapsto> PInt 40, ''date_of_birth'' \<mapsto> PStr ''2000-06-15''] 5000000 [] [''age'']
     = Inr [F 40]
   \<and> prepare_features iso_date_only \<lparr>year = 2026, month = 6, day = 15\<rparr>
        [''age'' \<mapsto> PInt 40, ''date_of_birth'' \<mapsto> PStr ''2000-06-15''] 5000000 [] [''age'']
     = Inr [F 40]"
proof -
  have a: "truthy (get [''age'' \<mapsto> PInt 40, ''date_of_birth'' \<mapsto> PStr ''2000-06-15''] ''age'')"
    by (simp add: get_def)
  have b: "prepare_features iso_date_only \<lparr>year = 2026, month = 6, day = 14\<rparr>
        [''age'' \<mapsto> PInt 40, ''date_of_birth'' \<mapsto> PStr ''2000-06-15''] 5000000 [] [''age'']
     = Inr [F 40]"
    by code_simp
  from prepare_features_clock_independent[OF disjI1, OF a, where fi = iso_date_only
      and ?t1.0 = "\<lparr>year = 2026, month = 6, day = 14\<rparr>"
      and ?t2.0 = "\<lparr>year = 2026, month = 6, day = 15\<rparr>"
      and sa = 5000000 and ds = "[]" and fns = "[''age'']"]
  have c: "prepare_features iso_date_only \<lparr>year = 2026, month = 6, day = 15\<rparr>
        [''age'' \<mapsto> PInt 40, ''date_of_birth'' \<mapsto> PStr ''2000-06-15''] 5000000 [] [''age'']
     = Inr [F 40]"
    unfolding b by (rule sym)
  from a b c show ?thesis by (intro conjI)
qed

text \<open>
  C8 as stated fails when the age comes from the date of birth: for an applicant born
  on 2000-06-15, a call on 2026-06-14 gives the age 25 and a call on 2026-06-15 gives 26.
\<close>

theorem prepare_features_clock_counterexample:
  "prepare_features iso_date_only \<lparr>year = 2026, month = 6, day = 14\<rparr>
      [''date_of_birth'' \<mapsto> PStr ''2000-06-15''] 5000000 [] [''age''] = Inr [F 25]
   \<and> prepare_features iso_date_only \<lparr>year = 2026, month = 6, day = 15\<rparr>
      [''date_of_birth'' \<mapsto> PStr ''2000-06-15''] 5000000 [] [''age''] = Inr [F 26]"
  by code_simp

section \<open>Trainer: a complexity run on too little data\<close>

text \<open>
  C4. When the assembled complexity dataset has fewer rows than the configured minimum
  and the run is not forced, \<open>train_complexity_model\<close> (and \<open>train\<close> through it) returns
  a result instead of raising, with status \<^verbatim>\<open>failed\<close> and an error that names the lack
  of data (\<^verbatim>\<open>"No training data available"\<close> for an empty dataset,
  \<^verbatim>\<open>"Insufficient training samples: n < min"\<close> otherwise), and it returns the world as
  it found it: the manager's models and the files on disk are unchanged, so no fit, no
  save and no hot swap took place.
\<close>

theorem train_complexity_insufficient_data:
  assumes "prepare_complexity_dataset (fetched_cases env) (fetched_complexity_overrides env)
             = Inr (X, y, sw)"
    and "int (length X) < min_training_samples env"
    and "\<not> force"
  shows "\<exists>r. train env ''complexity'' force w = Inr (r, w)
            \<and> train_complexity_model env force nv w = (r, w)
            \<and> ro_status r = ''failed''
            \<and> ro_error r = Some (if length X = 0 then NoTrainingData
                                  else InsufficientSamples (length X) (min_training_samples env))"
  using assms by (simp add: train_def train_complexity_model_def Let_def running_def)


theorem train_complexity_insufficient_data_witness:
  "prepare_complexity_dataset (fetched_cases (example_env 100))
       (fetched_complexity_overrides (example_env 100))
     = Inr ([[F 50, F 27, F 5, F 0, F 0, F 0, F 0, F 0, F 0, F 0, F 0, F 0],
             [F 50, F 27, F 5, F 0, F 0, F 0, F 0, F 0, F 0, F 0, F 0, F 0]], [0, 0], [1, 1])
   \<and> (\<exists>r. train (example_env 100) ''complexity'' False example_world = Inr (r, example_world)
          \<and> train_complexity_model (example_env 100) False None example_world
                = (r, example_world)
          \<and> ro_status r = ''failed''
          \<and> ro_error r = Some (InsufficientSamples 2 100))"
proof -
  have a: "prepare_complexity_dataset (fetched_cases (example_env 100))
       (fetched_complexity_overrides (example_env 100))
     = Inr ([[F 50, F 27, F 5, F 0, F 0, F 0, F 0, F 0, F 0, F 0, F 0, F 0],
             [F 50, F 27, F 5, F 0, F 0, F 0, F 0, F 0, F 0, F 0, F 0, F 0]], [0, 0], [1, 1])"
    by code_simp
  have b: "int (length [[F 50, F 27, F 5, F 0, F 0, F 0, F 0, F 0, F 0, F 0, F 0, F 0],
             [F 50, F 27, F 5, F 0, F 0, F 0, F 0, F 0, F 0, F 0, F 0, F 0]])
           < min_training_samples (example_env 100)"
    by (simp add: example_env_def)
  have c: "\<not> False" by simp
  have mn: "min_training_samples (example_env 100) = 100"
    by (simp add: example_env_def)
  from train_complexity_insufficient_data[OF a b c, of example_world None] a show ?thesis
    by (simp add: mn numeral_2_eq_2[symmetric])
qed


section \<open>Trainer: a run over all test codes\<close>


















section \<open>Train/serve parity of the complexity features\<close>
















end
